theory Spec2Isabelle
  imports Main
begin

section \<open>Python values\<close>

text \<open>
  A Python \<open>str\<close> is a sequence of Unicode code points; it is modelled as the list of
  these code points. \<open>lit\<close> reads an ASCII literal of the source.
\<close>

type_synonym pystr = "nat list"

definition lit :: "string \<Rightarrow> pystr" where
  "lit s = map of_char s"

text \<open>
  \<open>str.lower()\<close>. The upper-case ASCII letters go to their lower-case letters. Two
  code points outside ASCII have a lower-case form that contains an ASCII letter:
  U+0130 (capital I with dot above) becomes \<open>i\<close> followed by U+0307, and U+212A
  (the Kelvin sign) becomes \<open>k\<close>. Every other code point above 127 is sent by Python
  to one or more code points above 127; the model keeps it as it is, which changes
  neither the ASCII runs of the result nor, therefore, whether an ASCII keyword
  occurs in it.
\<close>

definition lower_cp :: "nat \<Rightarrow> nat list" where
  "lower_cp c =
     (if 65 \<le> c \<and> c \<le> 90 then [c + 32]
      else if c = 0x130 then [0x69, 0x307]
      else if c = 0x212A then [0x6B]
      else [c])"

definition lower :: "pystr \<Rightarrow> pystr" where
  "lower s = concat (map lower_cp s)"

text \<open>\<open>s.startswith(kw)\<close> and the substring test \<open>kw in s\<close>.\<close>

fun startswith :: "pystr \<Rightarrow> pystr \<Rightarrow> bool" where
  "startswith s [] = True"
| "startswith [] (k # ks) = False"
| "startswith (c # cs) (k # ks) = (c = k \<and> startswith cs ks)"

fun str_in :: "pystr \<Rightarrow> pystr \<Rightarrow> bool" where
  "str_in kw [] = (kw = [])"
| "str_in kw (c # cs) = (startswith (c # cs) kw \<or> str_in kw cs)"


section \<open>Data models\<close>

text \<open>
  The class \<open>Task\<close> (\<open>TaskBase\<close> plus \<open>id\<close>). A Python attribute can hold
  \<open>None\<close> whatever its annotation says (\<open>sqlmodel_update\<close> assigns without
  validating), so every field of the in-memory object is optional; what the annotations
  demand of a stored row is the predicate \<open>not_null\<close> below. The field \<open>id\<close> is
  named \<open>task_id\<close>, \<open>id\<close> being the identity function of HOL.
\<close>

record task =
  task_id :: "int option"
  title :: "pystr option"
  description :: "pystr option"
  is_completed :: "bool option"

text \<open>
  A JSON request body with the keys \<open>title\<close>, \<open>description\<close> and
  \<open>is_completed\<close>: a key is absent, or present with a value, \<open>None\<close> being JSON
  \<open>null\<close>. Values of another JSON type than the one declared are outside the model.
\<close>

datatype 'a field = Absent | Present 'a

record body =
  body_title :: "pystr option field"
  body_description :: "pystr option field"
  body_is_completed :: "bool option field"

text \<open>
  \<open>TaskCreate\<close>: \<open>title: str\<close> is required, \<open>description: Optional[str] = None\<close>,
  \<open>is_completed: bool = False\<close>.
\<close>

record task_create =
  create_title :: pystr
  create_description :: "pystr option"
  create_is_completed :: bool

text \<open>
  \<open>TaskUpdate\<close>: all three fields are \<open>Optional\<close> with default \<open>None\<close>. The
  validated object remembers which fields the body has set, so it is the body itself:
  \<open>Absent\<close> is a field that was not set.
\<close>

type_synonym task_update = body

datatype error =
  HTTPException nat pystr
  | RequestValidationError
  | IntegrityError
  | InvalidRequestError
  | OverflowError

text \<open>
  The status of the response: \<open>HTTPException\<close> carries its own, the framework answers a
  request that fails validation with 422, and an exception no handler catches with 500.
\<close>

fun status_code :: "error \<Rightarrow> nat" where
  "status_code (HTTPException c d) = c"
| "status_code RequestValidationError = 422"
| "status_code IntegrityError = 500"
| "status_code InvalidRequestError = 500"
| "status_code OverflowError = 500"

text \<open>Validation of a request body against \<open>TaskCreate\<close>.\<close>

definition validate_TaskCreate :: "body \<Rightarrow> error + task_create" where
  "validate_TaskCreate b =
     (case body_title b of
        Absent \<Rightarrow> Inl RequestValidationError
      | Present None \<Rightarrow> Inl RequestValidationError
      | Present (Some t) \<Rightarrow>
          (case body_is_completed b of
             Present None \<Rightarrow> Inl RequestValidationError
           | Absent \<Rightarrow>
               Inr \<lparr>create_title = t,
                    create_description =
                      (case body_description b of Absent \<Rightarrow> None | Present d \<Rightarrow> d),
                    create_is_completed = False\<rparr>
           | Present (Some c) \<Rightarrow>
               Inr \<lparr>create_title = t,
                    create_description =
                      (case body_description b of Absent \<Rightarrow> None | Present d \<Rightarrow> d),
                    create_is_completed = c\<rparr>))"

text \<open>\<open>Task.model_validate(task)\<close>: a new \<open>Task\<close> with the fields of \<open>task\<close> and no id.\<close>

definition Task_model_validate :: "task_create \<Rightarrow> task" where
  "Task_model_validate c =
     \<lparr>task_id = None,
      title = Some (create_title c),
      description = create_description c,
      is_completed = Some (create_is_completed c)\<rparr>"

text \<open>
  \<open>task_update.model_dump(exclude_unset=True)\<close> is the dictionary of the fields the
  body has set, and \<open>db_task.sqlmodel_update(task_data)\<close> assigns each of its values
  to the attribute of that name.
\<close>

definition sqlmodel_update :: "task \<Rightarrow> task_update \<Rightarrow> task" where
  "sqlmodel_update t d =
     t\<lparr>title := (case body_title d of Absent \<Rightarrow> title t | Present v \<Rightarrow> v),
       description := (case body_description d of Absent \<Rightarrow> description t | Present v \<Rightarrow> v),
       is_completed := (case body_is_completed d of Absent \<Rightarrow> is_completed t | Present v \<Rightarrow> v)\<rparr>"


section \<open>The storage engine\<close>

text \<open>
  The table \<open>task\<close> of the SQLite file, as the list of its rows in the order of the
  scan (the order of the row ids). The columns \<open>title\<close> and \<open>is_completed\<close> are
  declared with a type that is not \<open>Optional\<close>, so they are \<open>NOT NULL\<close>; an insert or
  update that would store a null there fails with \<open>IntegrityError\<close>.
\<close>

type_synonym table = "task list"

definition not_null :: "task \<Rightarrow> bool" where
  "not_null t = (title t \<noteq> None \<and> is_completed t \<noteq> None)"

text \<open>
  An integer column of SQLite holds a signed 64-bit integer, and the driver binds a
  Python \<open>int\<close> to a query as one: for a value outside that range it raises
  \<open>OverflowError\<close>, which no handler catches.
\<close>

definition int64 :: "int \<Rightarrow> bool" where
  "int64 i = (- 9223372036854775808 \<le> i \<and> i \<le> 9223372036854775807)"

text \<open>The row with a given primary key, if any.\<close>

definition row_by_id :: "table \<Rightarrow> int \<Rightarrow> task option" where
  "row_by_id db i = find (\<lambda>r. task_id r = Some i) db"

text \<open>
  \<open>session.get(Task, task_id)\<close>: the id from the request is bound to the query, and
  the result is the row with that primary key, or \<open>None\<close>.
\<close>

definition session_get :: "table \<Rightarrow> int \<Rightarrow> error + task option" where
  "session_get db i = (if int64 i then Inr (row_by_id db i) else Inl OverflowError)"

text \<open>
  The id of a row inserted with a null primary key: one more than the largest id of
  the table, and 1 on an empty table.
\<close>

definition next_rowid :: "table \<Rightarrow> int" where
  "next_rowid db =
     (case List.map_filter task_id db of [] \<Rightarrow> 1 | i # is \<Rightarrow> fold max is i + 1)"

text \<open>
  \<open>session.add(obj); session.commit()\<close>. An object without id is inserted and gets its
  id; an object loaded from the table replaces the row of its id. The result is the
  object as the session holds it afterwards, and the table.
\<close>

definition add_commit :: "task \<Rightarrow> table \<Rightarrow> error + task \<times> table" where
  "add_commit obj db =
     (if \<not> not_null obj then Inl IntegrityError
      else
        (case task_id obj of
           None \<Rightarrow> (let r = obj\<lparr>task_id := Some (next_rowid db)\<rparr> in Inr (r, db @ [r]))
         | Some i \<Rightarrow> Inr (obj, map (\<lambda>r. if task_id r = Some i then obj else r) db)))"

text \<open>
  \<open>session.refresh(obj)\<close>: the attributes are read again from the row of the object,
  whose id the engine has assigned or \<open>session.get\<close> has bound before.
\<close>

definition session_refresh :: "task \<Rightarrow> table \<Rightarrow> error + task" where
  "session_refresh obj db =
     (case task_id obj of
        None \<Rightarrow> Inl InvalidRequestError
      | Some i \<Rightarrow> (case row_by_id db i of None \<Rightarrow> Inl InvalidRequestError | Some r \<Rightarrow> Inr r))"

text \<open>\<open>session.delete(obj); session.commit()\<close>.\<close>

definition delete_commit :: "task \<Rightarrow> table \<Rightarrow> table" where
  "delete_commit obj db = filter (\<lambda>r. task_id r \<noteq> task_id obj) db"

text \<open>
  \<open>select(Task).offset(offset).limit(limit)\<close>, that is \<open>LIMIT limit OFFSET offset\<close>.
  Both values are bound to the query, so each must be a signed 64-bit integer. In
  SQLite a negative offset is no offset, and a negative limit is no limit.
\<close>

definition select_offset_limit :: "table \<Rightarrow> int \<Rightarrow> int \<Rightarrow> error + task list" where
  "select_offset_limit db offset limit =
     (if \<not> int64 offset \<or> \<not> int64 limit then Inl OverflowError
      else
        (let rest = (if offset < 0 then db else drop (nat offset) db)
         in Inr (if limit < 0 then rest else take (nat limit) rest)))"


section \<open>The endpoints\<close>

text \<open>
  Each handler takes the table and returns its response, or the error it raises,
  with the table it leaves.
\<close>

definition create_task :: "body \<Rightarrow> table \<Rightarrow> (error + task) \<times> table" where
  "create_task b db =
     (case validate_TaskCreate b of
        Inl e \<Rightarrow> (Inl e, db)
      | Inr task \<Rightarrow>
          (let db_task = Task_model_validate task in
           case add_commit db_task db of
             Inl e \<Rightarrow> (Inl e, db)
           | Inr (db_task', db') \<Rightarrow>
               (case session_refresh db_task' db' of
                  Inl e \<Rightarrow> (Inl e, db')
                | Inr r \<Rightarrow> (Inr r, db'))))"

text \<open>
  \<open>offset: int = 0\<close> and \<open>limit: int = Query(default=100, le=100)\<close>: a query
  parameter that is not given is \<open>None\<close> here.
\<close>

definition read_tasks :: "int option \<Rightarrow> int option \<Rightarrow> table \<Rightarrow> (error + task list) \<times> table" where
  "read_tasks offset limit db =
     (let off = (case offset of None \<Rightarrow> 0 | Some v \<Rightarrow> v);
          lim = (case limit of None \<Rightarrow> 100 | Some v \<Rightarrow> v)
      in if lim > 100 then (Inl RequestValidationError, db)
         else (select_offset_limit db off lim, db))"

definition read_task :: "int \<Rightarrow> table \<Rightarrow> (error + task) \<times> table" where
  "read_task tid db =
     (case session_get db tid of
        Inl e \<Rightarrow> (Inl e, db)
      | Inr None \<Rightarrow> (Inl (HTTPException 404 (lit ''Task not found'')), db)
      | Inr (Some task) \<Rightarrow> (Inr task, db))"

definition update_task :: "int \<Rightarrow> task_update \<Rightarrow> table \<Rightarrow> (error + task) \<times> table" where
  "update_task tid task_update db =
     (case session_get db tid of
        Inl e \<Rightarrow> (Inl e, db)
      | Inr None \<Rightarrow> (Inl (HTTPException 404 (lit ''Task not found'')), db)
      | Inr (Some db_task) \<Rightarrow>
          (case add_commit (sqlmodel_update db_task task_update) db of
             Inl e \<Rightarrow> (Inl e, db)
           | Inr (db_task', db') \<Rightarrow>
               (case session_refresh db_task' db' of
                  Inl e \<Rightarrow> (Inl e, db')
                | Inr r \<Rightarrow> (Inr r, db'))))"

definition delete_task :: "int \<Rightarrow> table \<Rightarrow> (error + (string \<times> bool) list) \<times> table" where
  "delete_task tid db =
     (case session_get db tid of
        Inl e \<Rightarrow> (Inl e, db)
      | Inr None \<Rightarrow> (Inl (HTTPException 404 (lit ''Task not found'')), db)
      | Inr (Some task) \<Rightarrow> (Inr [(''ok'', True)], delete_commit task db))"


section \<open>The classifier\<close>

text \<open>
  The three labels, with the code points the string literals of the source hold after
  the word and the space.
\<close>

definition simple_ai_model :: "pystr \<Rightarrow> pystr" where
  "simple_ai_model text =
     (if str_in (lit ''urgent'') (lower text) \<or> str_in (lit ''fail'') (lower text)
         \<or> str_in (lit ''error'') (lower text)
      then lit ''Critical '' @ [0xF0, 0x178, 0x201D, 0xB4]
      else if str_in (lit ''learn'') (lower text) \<or> str_in (lit ''buy'') (lower text)
      then lit ''Growth '' @ [0xF0, 0x178, 0x178, 0xA2]
      else lit ''Neutral '' @ [0xE2, 0x161, 0xAA])"

definition analyze_task_sentiment :: "pystr \<Rightarrow> (string \<times> pystr) list" where
  "analyze_task_sentiment description' =
     (let sentiment = simple_ai_model description'
      in [(''description'', description'), (''predicted_sentiment'', sentiment)])"


section \<open>Reachable tables\<close>

text \<open>
  What every table the endpoints produce from the empty one satisfies: the ids of its
  rows are distinct and not null, and no row has a null in a \<open>NOT NULL\<close> column.
\<close>

definition valid_table :: "table \<Rightarrow> bool" where
  "valid_table db =
     (distinct (map task_id db) \<and> list_all (\<lambda>r. task_id r \<noteq> None \<and> not_null r) db)"


section \<open>Example data\<close>

text \<open>Two stored tasks and some request bodies, for the concrete instances below.\<close>

definition milk :: task where
  "milk = \<lparr>task_id = Some 1, title = Some (lit ''Buy milk''), description = None,
           is_completed = Some False\<rparr>"

definition report :: task where
  "report = \<lparr>task_id = Some 2, title = Some (lit ''Write report''),
             description = Some (lit ''due Friday''), is_completed = Some False\<rparr>"

definition two_tasks :: table where
  "two_tasks = [milk, report]"

definition completed_only :: task_update where
  "completed_only =
     \<lparr>body_title = Absent, body_description = Absent, body_is_completed = Present (Some True)\<rparr>"

definition buy_milk :: body where
  "buy_milk =
     \<lparr>body_title = Present (Some (lit ''Buy milk'')), body_description = Absent,
      body_is_completed = Absent\<rparr>"

definition empty_title :: body where
  "empty_title =
     \<lparr>body_title = Present (Some []), body_description = Absent, body_is_completed = Absent\<rparr>"

definition no_title :: body where
  "no_title =
     \<lparr>body_title = Absent, body_description = Present (Some (lit ''no title'')),
      body_is_completed = Absent\<rparr>"

definition null_title :: task_update where
  "null_title =
     \<lparr>body_title = Present None, body_description = Absent, body_is_completed = Absent\<rparr>"

definition null_description :: task_update where
  "null_description =
     \<lparr>body_title = Absent, body_description = Present None, body_is_completed = Absent\<rparr>"


section \<open>Lookups in a changed table\<close>

lemma row_by_id_SomeD: "row_by_id db i = Some r \<Longrightarrow> r \<in> set db \<and> task_id r = Some i"
  unfolding row_by_id_def by (induction db) (auto split: if_splits)

lemma row_by_id_None_iff: "row_by_id db i = None \<longleftrightarrow> (\<forall>r\<in>set db. task_id r \<noteq> Some i)"
  by (auto simp: row_by_id_def find_None_iff)

lemma next_rowid_gt:
  assumes "r \<in> set db" and "task_id r = Some i"
  shows "i < next_rowid db"
proof -
  from assms have mem: "i \<in> set (List.map_filter task_id db)"
    by (force simp: List.map_filter_def)
  then obtain j js where js: "List.map_filter task_id db = j # js"
    by (cases "List.map_filter task_id db") auto
  have "fold max js j = Max (set (j # js))"
    by (rule Max.set_eq_fold [symmetric])
  moreover have "i \<le> Max (set (j # js))"
    using mem js by (intro Max_ge) auto
  ultimately show ?thesis
    by (simp add: next_rowid_def js)
qed

lemma row_by_id_next_rowid: "row_by_id db (next_rowid db) = None"
  using next_rowid_gt [of _ db "next_rowid db"] by (auto simp: row_by_id_None_iff)

lemma row_by_id_append:
  "row_by_id (db @ [r]) i =
     (case row_by_id db i of Some x \<Rightarrow> Some x
      | None \<Rightarrow> if task_id r = Some i then Some r else None)"
  unfolding row_by_id_def by (induction db) auto

lemma row_by_id_replace:
  "task_id obj = Some i \<Longrightarrow>
   row_by_id (map (\<lambda>r. if task_id r = Some i then obj else r) db) j =
     (if j = i then (case row_by_id db i of None \<Rightarrow> None | Some x \<Rightarrow> Some obj)
      else row_by_id db j)"
  unfolding row_by_id_def by (induction db) auto

lemma row_by_id_filter:
  "row_by_id (filter (\<lambda>r. task_id r \<noteq> Some i) db) j =
     (if j = i then None else row_by_id db j)"
  unfolding row_by_id_def by (induction db) auto

lemma session_get_Some_iff:
  "session_get db i = Inr (Some r) \<longleftrightarrow> int64 i \<and> row_by_id db i = Some r"
  by (simp add: session_get_def)

lemma session_get_None_iff:
  "session_get db i = Inr None \<longleftrightarrow> int64 i \<and> row_by_id db i = None"
  by (simp add: session_get_def)

lemma session_get_error_iff: "session_get db i = Inl e \<longleftrightarrow> \<not> int64 i \<and> e = OverflowError"
  by (auto simp: session_get_def)

lemma session_get_SomeD:
  "session_get db i = Inr (Some r) \<Longrightarrow> r \<in> set db \<and> task_id r = Some i \<and> int64 i"
  by (auto simp: session_get_Some_iff dest: row_by_id_SomeD)

lemma session_get_replaced:
  assumes "session_get db i = Inr (Some old)" and "task_id obj = Some i"
  shows "session_get (map (\<lambda>r. if task_id r = Some i then obj else r) db) i = Inr (Some obj)"
  using assms by (simp add: session_get_def row_by_id_replace split: if_splits)

lemma session_get_replace_other:
  assumes "task_id obj = Some i" and "j \<noteq> i"
  shows "session_get (map (\<lambda>r. if task_id r = Some i then obj else r) db) j = session_get db j"
  using assms by (simp add: session_get_def row_by_id_replace)

lemma session_get_deleted:
  "int64 i \<Longrightarrow> session_get (filter (\<lambda>r. task_id r \<noteq> Some i) db) i = Inr None"
  by (simp add: session_get_def row_by_id_filter)

lemma task_id_sqlmodel_update [simp]: "task_id (sqlmodel_update t d) = task_id t"
  by (simp add: sqlmodel_update_def)

lemma map_task_id_replace:
  "task_id obj = Some i \<Longrightarrow>
   map task_id (map (\<lambda>r. if task_id r = Some i then obj else r) db) = map task_id db"
  by (induction db) auto

lemma update_task_found:
  assumes "session_get db tid = Inr (Some old)"
  shows "update_task tid p db =
     (if not_null (sqlmodel_update old p)
      then (Inr (sqlmodel_update old p),
            map (\<lambda>r. if task_id r = Some tid then sqlmodel_update old p else r) db)
      else (Inl IntegrityError, db))"
proof -
  have i: "task_id old = Some tid" and r: "row_by_id db tid = Some old"
    using assms by (auto simp: session_get_Some_iff dest: row_by_id_SomeD)
  then have "row_by_id (map (\<lambda>r. if task_id r = Some tid then sqlmodel_update old p else r) db) tid
      = Some (sqlmodel_update old p)"
    by (simp add: row_by_id_replace)
  with i assms show ?thesis
    by (simp add: update_task_def add_commit_def session_refresh_def)
qed

lemma create_task_valid:
  assumes "validate_TaskCreate b = Inr c"
  shows "create_task b db =
     (Inr ((Task_model_validate c)\<lparr>task_id := Some (next_rowid db)\<rparr>),
      db @ [(Task_model_validate c)\<lparr>task_id := Some (next_rowid db)\<rparr>])"
  using assms
  by (simp add: create_task_def add_commit_def session_refresh_def not_null_def
      Task_model_validate_def Let_def row_by_id_append row_by_id_next_rowid)

lemma create_task_invalid:
  "validate_TaskCreate b = Inl e \<Longrightarrow> create_task b db = (Inl e, db)"
  by (simp add: create_task_def)

lemma delete_task_found:
  "session_get db tid = Inr (Some t) \<Longrightarrow>
   delete_task tid db = (Inr [(''ok'', True)], filter (\<lambda>r. task_id r \<noteq> Some tid) db)"
  by (simp add: delete_task_def delete_commit_def session_get_SomeD)

lemma read_task_found:
  "session_get db tid = Inr (Some t) \<Longrightarrow> read_task tid db = (Inr t, db)"
  by (simp add: read_task_def)

lemma read_task_missing:
  "session_get db tid = Inr None \<Longrightarrow>
   read_task tid db = (Inl (HTTPException 404 (lit ''Task not found'')), db)"
  by (simp add: read_task_def)

lemma update_task_missing:
  "session_get db tid = Inr None \<Longrightarrow>
   update_task tid p db = (Inl (HTTPException 404 (lit ''Task not found'')), db)"
  by (simp add: update_task_def)

lemma delete_task_missing:
  "session_get db tid = Inr None \<Longrightarrow>
   delete_task tid db = (Inl (HTTPException 404 (lit ''Task not found'')), db)"
  by (simp add: delete_task_def)

lemma read_task_overflow: "\<not> int64 tid \<Longrightarrow> read_task tid db = (Inl OverflowError, db)"
  by (simp add: read_task_def session_get_def)

lemma update_task_overflow: "\<not> int64 tid \<Longrightarrow> update_task tid p db = (Inl OverflowError, db)"
  by (simp add: update_task_def session_get_def)

lemma delete_task_overflow: "\<not> int64 tid \<Longrightarrow> delete_task tid db = (Inl OverflowError, db)"
  by (simp add: delete_task_def session_get_def)

lemma valid_two_tasks: "valid_table two_tasks"
  by (simp add: valid_table_def two_tasks_def milk_def report_def not_null_def
      del: not_None_eq)

lemma get_report: "session_get two_tasks 2 = Inr (Some report)"
  by (simp add: session_get_def int64_def row_by_id_def two_tasks_def milk_def report_def)

lemma get_milk: "session_get two_tasks 1 = Inr (Some milk)"
  by (simp add: session_get_def int64_def row_by_id_def two_tasks_def milk_def)

lemma get_missing: "session_get two_tasks 7 = Inr None"
  by (simp add: session_get_def int64_def row_by_id_def two_tasks_def milk_def report_def)


section \<open>Update is a partial patch\<close>

text \<open>
  Claim C1. For a task that exists, \<open>update_task\<close> leaves every field that is absent
  from the body as it was, in the row it stores and in the task it returns, and it
  leaves every other row alone. When it returns a task, each field present in the body
  has the value of the body; when it does not (the body puts a null into \<open>title\<close>
  or \<open>is_completed\<close>), the row is untouched. Patching only \<open>is_completed\<close> to
  true returns the full task with that one field changed.
\<close>

theorem update_task_frame:
  assumes "valid_table db" and "session_get db tid = Inr (Some old)"
  shows "(\<exists>new. session_get (snd (update_task tid p db)) tid = Inr (Some new)
           \<and> task_id new = Some tid
           \<and> (body_title p = Absent \<longrightarrow> title new = title old)
           \<and> (body_description p = Absent \<longrightarrow> description new = description old)
           \<and> (body_is_completed p = Absent \<longrightarrow> is_completed new = is_completed old)
           \<and> (fst (update_task tid p db) = Inr new
                \<and> (\<forall>v. body_title p = Present v \<longrightarrow> title new = v)
                \<and> (\<forall>v. body_description p = Present v \<longrightarrow> description new = v)
                \<and> (\<forall>v. body_is_completed p = Present v \<longrightarrow> is_completed new = v)
               \<or> fst (update_task tid p db) = Inl IntegrityError \<and> new = old
                \<and> (body_title p = Present None \<or> body_is_completed p = Present None)))
     \<and> (\<forall>j. j \<noteq> tid \<longrightarrow> session_get (snd (update_task tid p db)) j = session_get db j)
     \<and> update_task tid completed_only db =
           (Inr (old\<lparr>is_completed := Some True\<rparr>),
            map (\<lambda>r. if task_id r = Some tid then old\<lparr>is_completed := Some True\<rparr> else r) db)"
    (is "?frame \<and> ?others \<and> ?example")
proof -
  have i: "task_id old = Some tid" and mem: "old \<in> set db"
    using session_get_SomeD [OF assms(2)] by simp_all
  from mem assms(1) have nn: "not_null old"
    by (simp add: valid_table_def list_all_iff)
  let ?new = "sqlmodel_update old p"
  have frame: ?frame
  proof (cases "not_null ?new")
    case True
    then have "update_task tid p db =
        (Inr ?new, map (\<lambda>r. if task_id r = Some tid then ?new else r) db)"
      by (simp add: update_task_found [OF assms(2)])
    moreover have "session_get (map (\<lambda>r. if task_id r = Some tid then ?new else r) db) tid
        = Inr (Some ?new)"
      using i by (intro session_get_replaced [OF assms(2)]) simp
    ultimately show ?thesis
      using i by (auto simp: sqlmodel_update_def)
  next
    case False
    then have "update_task tid p db = (Inl IntegrityError, db)"
      by (simp add: update_task_found [OF assms(2)])
    moreover from False nn
    have "body_title p = Present None \<or> body_is_completed p = Present None"
      by (auto simp: not_null_def sqlmodel_update_def split: field.splits)
    ultimately show ?thesis
      using i assms(2) by auto
  qed
  have others: ?others
  proof (cases "not_null ?new")
    case True
    then show ?thesis
      using i by (simp add: update_task_found [OF assms(2)] session_get_replace_other)
  next
    case False
    then show ?thesis
      by (simp add: update_task_found [OF assms(2)])
  qed
  have "sqlmodel_update old completed_only = old\<lparr>is_completed := Some True\<rparr>"
    by (simp add: sqlmodel_update_def completed_only_def)
  with nn have example: ?example
    by (simp add: update_task_found [OF assms(2)] not_null_def)
  show ?thesis
    by (rule conjI [OF frame conjI [OF others example]])
qed

theorem update_task_frame_witness:
  "valid_table two_tasks \<and> session_get two_tasks 2 = Inr (Some report)
   \<and> update_task 2 completed_only two_tasks =
       (Inr (report\<lparr>is_completed := Some True\<rparr>), [milk, report\<lparr>is_completed := Some True\<rparr>])"
  using valid_two_tasks get_report
    update_task_frame [OF valid_two_tasks get_report, of completed_only]
  by (simp add: two_tasks_def milk_def report_def)


section \<open>Ids without a row\<close>

lemma no_row_big_id: "row_by_id two_tasks 9223372036854775808 = None"
  by (simp add: row_by_id_def two_tasks_def milk_def report_def)

text \<open>
  The id of the request is any integer. No row has the id \<open>2 ^ 63\<close>, and
  \<open>read_task\<close> with it does not raise the 404 error: the id cannot be bound to the
  query, and the response has status 500.
\<close>

theorem read_task_big_id_counterexample:
  "row_by_id two_tasks 9223372036854775808 = None
   \<and> fst (read_task 9223372036854775808 two_tasks) = Inl OverflowError
   \<and> status_code OverflowError = 500
   \<and> fst (read_task 9223372036854775808 two_tasks)
        \<noteq> Inl (HTTPException 404 (lit ''Task not found''))"
proof -
  have "\<not> int64 9223372036854775808"
    by (simp add: int64_def)
  then have "read_task 9223372036854775808 two_tasks = (Inl OverflowError, two_tasks)"
    by (rule read_task_overflow)
  with no_row_big_id show ?thesis
    by simp
qed

text \<open>
  Claim C3, for an id that is a signed 64-bit integer. When no row has it,
  \<open>read_task\<close>, \<open>update_task\<close> and \<open>delete_task\<close> each raise the
  \<open>HTTPException\<close> with status 404 and detail "Task not found". When a row has it,
  \<open>read_task\<close> returns that row, \<open>delete_task\<close> returns \<open>{"ok": True}\<close>, and
  \<open>update_task\<close> returns the patched task, which is then the row of that id,
  whenever the patched task can be stored.
\<close>

theorem missing_id_not_found:
  "(int64 tid \<and> row_by_id db tid = None \<longrightarrow>
      fst (read_task tid db) = Inl (HTTPException 404 (lit ''Task not found''))
      \<and> fst (update_task tid p db) = Inl (HTTPException 404 (lit ''Task not found''))
      \<and> fst (delete_task tid db) = Inl (HTTPException 404 (lit ''Task not found''))
      \<and> status_code (HTTPException 404 (lit ''Task not found'')) = 404)
   \<and> (\<forall>t. int64 tid \<and> row_by_id db tid = Some t \<longrightarrow>
      fst (read_task tid db) = Inr t
      \<and> fst (delete_task tid db) = Inr [(''ok'', True)]
      \<and> (not_null (sqlmodel_update t p) \<longrightarrow>
            fst (update_task tid p db) = Inr (sqlmodel_update t p))
      \<and> (\<forall>u. fst (update_task tid p db) = Inr u \<longrightarrow>
            u = sqlmodel_update t p
            \<and> row_by_id (snd (update_task tid p db)) tid = Some u))"
  (is "?missing \<and> ?found")
proof -
  have missing: ?missing
  proof
    assume "int64 tid \<and> row_by_id db tid = None"
    then have n: "session_get db tid = Inr None"
      by (simp add: session_get_None_iff)
    show "fst (read_task tid db) = Inl (HTTPException 404 (lit ''Task not found''))
      \<and> fst (update_task tid p db) = Inl (HTTPException 404 (lit ''Task not found''))
      \<and> fst (delete_task tid db) = Inl (HTTPException 404 (lit ''Task not found''))
      \<and> status_code (HTTPException 404 (lit ''Task not found'')) = 404"
      by (simp add: read_task_missing [OF n] update_task_missing [OF n]
          delete_task_missing [OF n])
  qed
  have found: ?found
  proof (intro allI impI)
    fix t assume a: "int64 tid \<and> row_by_id db tid = Some t"
    then have t: "session_get db tid = Inr (Some t)"
      by (simp add: session_get_Some_iff)
    from a have i: "task_id t = Some tid"
      by (auto dest: row_by_id_SomeD)
    have "row_by_id (map (\<lambda>r. if task_id r = Some tid then sqlmodel_update t p else r) db) tid
        = Some (sqlmodel_update t p)"
      using i a by (simp add: row_by_id_replace)
    then show "fst (read_task tid db) = Inr t
      \<and> fst (delete_task tid db) = Inr [(''ok'', True)]
      \<and> (not_null (sqlmodel_update t p) \<longrightarrow>
            fst (update_task tid p db) = Inr (sqlmodel_update t p))
      \<and> (\<forall>u. fst (update_task tid p db) = Inr u \<longrightarrow>
            u = sqlmodel_update t p
            \<and> row_by_id (snd (update_task tid p db)) tid = Some u)"
      by (simp add: read_task_found [OF t] delete_task_found [OF t] update_task_found [OF t])
  qed
  show ?thesis
    by (rule conjI [OF missing found])
qed

theorem missing_id_not_found_witness:
  "int64 7 \<and> row_by_id two_tasks 7 = None
   \<and> fst (read_task 7 two_tasks) = Inl (HTTPException 404 (lit ''Task not found''))
   \<and> fst (update_task 7 completed_only two_tasks) = Inl (HTTPException 404 (lit ''Task not found''))
   \<and> fst (delete_task 7 two_tasks) = Inl (HTTPException 404 (lit ''Task not found''))
   \<and> int64 1 \<and> row_by_id two_tasks 1 = Some milk
   \<and> fst (read_task 1 two_tasks) = Inr milk
   \<and> fst (delete_task 1 two_tasks) = Inr [(''ok'', True)]
   \<and> fst (update_task 1 completed_only two_tasks) = Inr (sqlmodel_update milk completed_only)"
proof -
  have h7: "int64 7 \<and> row_by_id two_tasks 7 = None"
    using get_missing by (simp add: session_get_None_iff)
  have h1: "int64 1 \<and> row_by_id two_tasks 1 = Some milk"
    using get_milk by (simp add: session_get_Some_iff)
  note m = missing_id_not_found [of 7 two_tasks completed_only, THEN conjunct1, THEN mp,
      OF h7]
  note f = missing_id_not_found [of 1 two_tasks completed_only, THEN conjunct2, THEN spec,
      THEN mp, OF h1]
  have n: "not_null (sqlmodel_update milk completed_only)"
    by (simp add: not_null_def sqlmodel_update_def completed_only_def milk_def)
  from f n have u: "fst (update_task 1 completed_only two_tasks)
      = Inr (sqlmodel_update milk completed_only)"
    by blast
  from m f u h7 h1 show ?thesis
    by blast
qed


section \<open>Reading back a created task\<close>




section \<open>Deleting twice\<close>

text \<open>
  Claim C7. After a \<open>delete_task\<close> that succeeded, \<open>read_task\<close> on the same id
  raises the 404 error, and so does a second \<open>delete_task\<close>, which changes nothing.
\<close>

theorem delete_then_not_found:
  assumes "fst (delete_task tid db) = Inr r"
  shows "r = [(''ok'', True)]
     \<and> read_task tid (snd (delete_task tid db)) =
         (Inl (HTTPException 404 (lit ''Task not found'')), snd (delete_task tid db))
     \<and> delete_task tid (snd (delete_task tid db)) =
         (Inl (HTTPException 404 (lit ''Task not found'')), snd (delete_task tid db))"
proof (cases "session_get db tid")
  case (Inl e)
  with assms show ?thesis
    by (simp add: delete_task_def)
next
  case (Inr found)
  show ?thesis
  proof (cases found)
    case None
    with Inr assms show ?thesis
      by (simp add: delete_task_missing)
  next
    case (Some t)
    with Inr have t: "session_get db tid = Inr (Some t)"
      by simp
    then have "int64 tid"
      by (simp add: session_get_Some_iff)
    then have n: "session_get (filter (\<lambda>r. task_id r \<noteq> Some tid) db) tid = Inr None"
      by (rule session_get_deleted)
    from assms show ?thesis
      by (simp add: delete_task_found [OF t] read_task_missing [OF n]
          delete_task_missing [OF n])
  qed
qed

theorem delete_then_not_found_witness:
  "fst (delete_task 1 two_tasks) = Inr [(''ok'', True)]
   \<and> snd (delete_task 1 two_tasks) = [report]
   \<and> read_task 1 [report] = (Inl (HTTPException 404 (lit ''Task not found'')), [report])
   \<and> delete_task 1 [report] = (Inl (HTTPException 404 (lit ''Task not found'')), [report])"
proof -
  have d: "delete_task 1 two_tasks = (Inr [(''ok'', True)], [report])"
    by (simp add: delete_task_found [OF get_milk]) (simp add: two_tasks_def milk_def report_def)
  then have f: "fst (delete_task 1 two_tasks) = Inr [(''ok'', True)]"
    by simp
  from delete_then_not_found [OF f] d show ?thesis
    by simp
qed


section \<open>A failed lookup writes nothing\<close>

text \<open>
  Claim C10. When \<open>read_task\<close>, \<open>update_task\<close> or \<open>delete_task\<close> raises the
  404 error, the table it leaves is the table it was given.
\<close>

theorem not_found_leaves_table:
  "(fst (read_task tid db) = Inl (HTTPException 404 d) \<longrightarrow> snd (read_task tid db) = db)
   \<and> (fst (update_task tid p db) = Inl (HTTPException 404 d) \<longrightarrow>
        snd (update_task tid p db) = db)
   \<and> (fst (delete_task tid db) = Inl (HTTPException 404 d) \<longrightarrow>
        snd (delete_task tid db) = db)"
proof (cases "session_get db tid")
  case (Inl e)
  then show ?thesis
    by (simp add: read_task_def update_task_def delete_task_def)
next
  case (Inr found)
  show ?thesis
  proof (cases found)
    case None
    with Inr have n: "session_get db tid = Inr None"
      by simp
    show ?thesis
      by (simp add: read_task_missing [OF n] update_task_missing [OF n]
          delete_task_missing [OF n])
  next
    case (Some t)
    with Inr have t: "session_get db tid = Inr (Some t)"
      by simp
    show ?thesis
      by (simp add: read_task_found [OF t] update_task_found [OF t] delete_task_found [OF t])
  qed
qed

theorem not_found_leaves_table_witness:
  "fst (read_task 7 two_tasks) = Inl (HTTPException 404 (lit ''Task not found''))
   \<and> snd (read_task 7 two_tasks) = two_tasks
   \<and> fst (update_task 7 completed_only two_tasks) = Inl (HTTPException 404 (lit ''Task not found''))
   \<and> snd (update_task 7 completed_only two_tasks) = two_tasks
   \<and> fst (delete_task 7 two_tasks) = Inl (HTTPException 404 (lit ''Task not found''))
   \<and> snd (delete_task 7 two_tasks) = two_tasks"
proof -
  have r: "fst (read_task 7 two_tasks) = Inl (HTTPException 404 (lit ''Task not found''))"
    and u: "fst (update_task 7 completed_only two_tasks)
            = Inl (HTTPException 404 (lit ''Task not found''))"
    and d: "fst (delete_task 7 two_tasks) = Inl (HTTPException 404 (lit ''Task not found''))"
    by (simp_all add: read_task_missing [OF get_missing] update_task_missing [OF get_missing]
        delete_task_missing [OF get_missing])
  from not_found_leaves_table [of 7 two_tasks "lit ''Task not found''" completed_only] r u d
  show ?thesis
    by blast
qed


section \<open>Listing tasks\<close>

lemma read_tasks_in_range:
  assumes "0 \<le> offset" and "offset \<le> 9223372036854775807"
    and "0 \<le> limit" and "limit \<le> 100"
  shows "read_tasks (Some offset) (Some limit) db =
           (Inr (take (nat limit) (drop (nat offset) db)), db)"
  using assms by (simp add: read_tasks_def select_offset_limit_def int64_def)

lemma read_tasks_negative_limit:
  assumes "0 \<le> offset" and "int64 offset" and "limit < 0" and "int64 limit"
  shows "read_tasks (Some offset) (Some limit) db = (Inr (drop (nat offset) db), db)"
  using assms by (simp add: read_tasks_def select_offset_limit_def)

lemma read_tasks_overflow:
  assumes "\<not> int64 offset" and "limit \<le> 100"
  shows "read_tasks (Some offset) (Some limit) db = (Inl OverflowError, db)"
  using assms by (simp add: read_tasks_def select_offset_limit_def)

text \<open>
  The query parameter \<open>limit\<close> is only bounded from above. With \<open>limit = -1\<close>,
  which is at most 100, the query has no limit and \<open>read_tasks\<close> returns both rows
  of a table of two: more than \<open>limit\<close> rows.
\<close>

theorem read_tasks_negative_limit_counterexample:
  "fst (read_tasks (Some 0) (Some (- 1)) two_tasks) = Inr two_tasks
   \<and> \<not> int (length two_tasks) \<le> - 1"
  by (simp add: read_tasks_negative_limit int64_def two_tasks_def)

text \<open>
  Claim C5, for a limit that is not negative and an offset that is a signed 64-bit
  integer. For \<open>0 \<le> offset \<le> 2 ^ 63 - 1\<close> and
  \<open>0 \<le> limit \<le> 100\<close>, \<open>read_tasks\<close> returns, without error and without
  changing the table, the rows at the positions \<open>offset\<close>, \<open>offset + 1\<close>, ...: at
  most \<open>limit\<close> of them, all that are left when fewer are, and none when the offset
  is the number of rows or more. A limit that is not given is 100, an offset that is
  not given is 0, and on the empty table the result is the empty list.
\<close>

theorem read_tasks_page:
  assumes "0 \<le> offset" and "offset \<le> 9223372036854775807"
    and "0 \<le> limit" and "limit \<le> 100"
  shows "(\<exists>ts. read_tasks (Some offset) (Some limit) db = (Inr ts, db)
            \<and> ts = take (nat limit) (drop (nat offset) db)
            \<and> int (length ts) \<le> limit
            \<and> length ts = min (nat limit) (length db - nat offset)
            \<and> (\<forall>k<length ts. ts ! k = db ! (nat offset + k))
            \<and> (int (length db) \<le> offset \<longrightarrow> ts = []))
     \<and> read_tasks (Some offset) None db = read_tasks (Some offset) (Some 100) db
     \<and> read_tasks None (Some limit) db = read_tasks (Some 0) (Some limit) db
     \<and> read_tasks (Some 0) (Some 100) [] = (Inr [], [])"
  (is "?page \<and> ?default_limit \<and> ?default_offset \<and> ?empty")
proof -
  let ?ts = "take (nat limit) (drop (nat offset) db)"
  have r: "read_tasks (Some offset) (Some limit) db = (Inr ?ts, db)"
    using assms by (rule read_tasks_in_range)
  have len: "length ?ts = min (nat limit) (length db - nat offset)"
    by simp
  have bound: "int (length ?ts) \<le> limit"
    using assms(3) by simp
  have nth: "\<forall>k<length ?ts. ?ts ! k = db ! (nat offset + k)"
  proof (intro allI impI)
    fix k assume "k < length ?ts"
    then have "k < nat limit" and "nat offset \<le> length db"
      by auto
    then show "?ts ! k = db ! (nat offset + k)"
      by (simp add: nth_drop)
  qed
  have beyond: "int (length db) \<le> offset \<longrightarrow> ?ts = []"
    by auto
  from r len bound nth beyond have page: ?page
    by blast
  have default_limit: ?default_limit
    by (simp add: read_tasks_def)
  have default_offset: ?default_offset
    by (simp add: read_tasks_def)
  have empty: ?empty
    by (simp add: read_tasks_def select_offset_limit_def int64_def)
  show ?thesis
    by (rule conjI [OF page conjI [OF default_limit conjI [OF default_offset empty]]])
qed

theorem read_tasks_page_witness:
  "(0::int) \<le> 1 \<and> (1::int) \<le> 9223372036854775807 \<and> (0::int) \<le> 5 \<and> (5::int) \<le> 100
   \<and> read_tasks (Some 1) (Some 5) two_tasks = (Inr [report], two_tasks)
   \<and> read_tasks (Some 2) (Some 5) two_tasks = (Inr [], two_tasks)
   \<and> read_tasks (Some 0) (Some 100) [] = (Inr [], [])"
proof -
  have h: "(0::int) \<le> 1" "(1::int) \<le> 9223372036854775807" "(0::int) \<le> 5"
    "(5::int) \<le> 100" "(0::int) \<le> 2" "(2::int) \<le> 9223372036854775807"
    by simp_all
  from read_tasks_page [OF h(1) h(2) h(3) h(4), of two_tasks]
  have a: "read_tasks (Some 1) (Some 5) two_tasks = (Inr [report], two_tasks)"
    by (auto simp: two_tasks_def)
  from read_tasks_page [OF h(5) h(6) h(3) h(4), of two_tasks]
  have b: "read_tasks (Some 2) (Some 5) two_tasks = (Inr [], two_tasks)"
    by (auto simp: two_tasks_def)
  from read_tasks_page [OF h(1) h(2) h(3) h(4), of two_tasks]
  have c: "read_tasks (Some 0) (Some 100) [] = (Inr [], [])"
    by blast
  from h a b c show ?thesis
    by blast
qed


section \<open>Validation of a new task\<close>

text \<open>
  \<open>title: str\<close> has no minimum length. A body whose title is the empty string
  passes validation, and \<open>create_task\<close> stores the row and returns it.
\<close>

theorem create_task_empty_title_counterexample:
  "create_task empty_title [] =
     (Inr \<lparr>task_id = Some 1, title = Some [], description = None, is_completed = Some False\<rparr>,
      [\<lparr>task_id = Some 1, title = Some [], description = None, is_completed = Some False\<rparr>])"
  by (simp add: create_task_def validate_TaskCreate_def empty_title_def Task_model_validate_def
      add_commit_def not_null_def next_rowid_def List.map_filter_def session_refresh_def
      row_by_id_def Let_def)

lemma validate_TaskCreate_title:
  "validate_TaskCreate b = Inr c \<Longrightarrow> body_title b = Present (Some (create_title c))"
  by (auto simp: validate_TaskCreate_def split: field.splits option.splits)

lemma validate_TaskCreate_error:
  "validate_TaskCreate b = Inl e \<Longrightarrow> e = RequestValidationError"
  by (auto simp: validate_TaskCreate_def split: field.splits option.splits)

lemma validate_TaskCreate_accepts:
  "body_title b = Present (Some s) \<Longrightarrow> body_is_completed b \<noteq> Present None \<Longrightarrow>
   \<exists>c. validate_TaskCreate b = Inr c \<and> create_title c = s"
  by (auto simp: validate_TaskCreate_def split: field.splits option.splits)

text \<open>
  Claim C6, without the demand that the title be non-empty. A body with no title, or
  with a null title, is rejected with the validation error (status 422) and the table
  is as it was; the validation error is the only error \<open>create_task\<close> raises, and
  it never comes with a changed table. A body with a title that is a string, empty or
  not, and no null \<open>is_completed\<close>, is accepted: the row is appended and returned.
\<close>

theorem create_task_validation:
  "(body_title b = Absent \<or> body_title b = Present None \<longrightarrow>
      create_task b db = (Inl RequestValidationError, db))
   \<and> (\<forall>e. fst (create_task b db) = Inl e \<longrightarrow>
         e = RequestValidationError \<and> status_code e = 422 \<and> snd (create_task b db) = db)
   \<and> (\<forall>s. body_title b = Present (Some s) \<and> body_is_completed b \<noteq> Present None \<longrightarrow>
         (\<exists>r. create_task b db = (Inr r, db @ [r]) \<and> title r = Some s))"
  (is "?rejects \<and> ?errors \<and> ?accepts")
proof -
  have rejects: ?rejects
    by (auto simp: create_task_def validate_TaskCreate_def)
  have errors: ?errors
  proof (cases "validate_TaskCreate b")
    case (Inl e)
    then show ?thesis
      by (auto simp: create_task_invalid dest: validate_TaskCreate_error)
  next
    case (Inr c)
    then show ?thesis
      by (simp add: create_task_valid)
  qed
  have accepts: ?accepts
  proof (intro allI impI)
    fix s assume "body_title b = Present (Some s) \<and> body_is_completed b \<noteq> Present None"
    then obtain c where c: "validate_TaskCreate b = Inr c" "create_title c = s"
      using validate_TaskCreate_accepts by blast
    then show "\<exists>r. create_task b db = (Inr r, db @ [r]) \<and> title r = Some s"
      by (simp add: create_task_valid Task_model_validate_def)
  qed
  show ?thesis
    by (rule conjI [OF rejects conjI [OF errors accepts]])
qed

theorem create_task_validation_witness:
  "body_title no_title = Absent
   \<and> create_task no_title two_tasks = (Inl RequestValidationError, two_tasks)
   \<and> status_code RequestValidationError = 422
   \<and> body_title buy_milk = Present (Some (lit ''Buy milk''))
   \<and> (\<exists>r. create_task buy_milk two_tasks = (Inr r, two_tasks @ [r])
          \<and> title r = Some (lit ''Buy milk''))"
proof -
  have a: "body_title no_title = Absent"
    by (simp add: no_title_def)
  have b: "body_title buy_milk = Present (Some (lit ''Buy milk''))
      \<and> body_is_completed buy_milk \<noteq> Present None"
    by (simp add: buy_milk_def)
  note t1 = create_task_validation [of no_title two_tasks, THEN conjunct1]
  note t2 = create_task_validation [of buy_milk two_tasks, THEN conjunct2, THEN conjunct2,
      THEN spec, THEN mp, OF b]
  from a t1 have c: "create_task no_title two_tasks = (Inl RequestValidationError, two_tasks)"
    by blast
  have d: "status_code RequestValidationError = 422"
    by simp
  from a b c d t2 show ?thesis
    by blast
qed


section \<open>The id of a stored task\<close>

lemma next_rowid_fresh: "Some (next_rowid db) \<notin> set (map task_id db)"
  using row_by_id_next_rowid [of db] by (auto simp: row_by_id_None_iff)

lemma valid_table_ids:
  "valid_table db \<Longrightarrow> distinct (map task_id db) \<and> None \<notin> set (map task_id db)"
  by (auto simp: valid_table_def list_all_iff)

lemma valid_table_append:
  assumes "valid_table db" and "task_id r = Some (next_rowid db)" and "not_null r"
  shows "valid_table (db @ [r])"
  using assms next_rowid_fresh [of db] by (auto simp: valid_table_def list_all_iff)

lemma valid_table_replace:
  assumes "valid_table db" and "task_id obj = Some i" and "not_null obj"
  shows "valid_table (map (\<lambda>r. if task_id r = Some i then obj else r) db)"
proof -
  have "distinct (map task_id (map (\<lambda>r. if task_id r = Some i then obj else r) db))"
    using assms(1,2) by (simp only: map_task_id_replace) (simp add: valid_table_def)
  moreover have "list_all (\<lambda>r. task_id r \<noteq> None \<and> not_null r)
      (map (\<lambda>r. if task_id r = Some i then obj else r) db)"
    using assms by (auto simp: valid_table_def list_all_iff)
  ultimately show ?thesis
    by (simp only: valid_table_def)
qed

lemma valid_table_filter: "valid_table db \<Longrightarrow> valid_table (filter P db)"
  by (auto simp: valid_table_def list_all_iff distinct_map_filter)

lemma delete_task_table:
  "(int64 tid \<longrightarrow> snd (delete_task tid db) = filter (\<lambda>r. task_id r \<noteq> Some tid) db)
   \<and> (\<not> int64 tid \<longrightarrow> snd (delete_task tid db) = db)"
proof (cases "session_get db tid")
  case (Inl e)
  then have "\<not> int64 tid"
    by (simp add: session_get_error_iff)
  then show ?thesis
    by (simp add: delete_task_overflow)
next
  case (Inr found)
  show ?thesis
  proof (cases found)
    case None
    with Inr have n: "session_get db tid = Inr None"
      by simp
    then have "filter (\<lambda>r. task_id r \<noteq> Some tid) db = db"
      by (auto simp: session_get_None_iff row_by_id_None_iff intro: filter_True)
    with n show ?thesis
      by (simp add: delete_task_missing [OF n] session_get_None_iff)
  next
    case (Some t)
    with Inr have t: "session_get db tid = Inr (Some t)"
      by simp
    then show ?thesis
      by (simp add: delete_task_found [OF t] session_get_Some_iff)
  qed
qed

lemma update_task_table:
  "valid_table db \<Longrightarrow>
   valid_table (snd (update_task tid p db))
   \<and> map task_id (snd (update_task tid p db)) = map task_id db"
proof (cases "session_get db tid")
  case (Inl e)
  assume "valid_table db"
  with Inl show ?thesis
    by (simp add: update_task_def)
next
  case (Inr found)
  assume v: "valid_table db"
  show ?thesis
  proof (cases found)
    case None
    with Inr have n: "session_get db tid = Inr None"
      by simp
    from v show ?thesis
      by (simp add: update_task_missing [OF n])
  next
    case (Some old)
    with Inr have t: "session_get db tid = Inr (Some old)"
      by simp
    then have i: "task_id (sqlmodel_update old p) = Some tid"
      using session_get_SomeD [OF t] by simp
    show ?thesis
    proof (cases "not_null (sqlmodel_update old p)")
      case True
      with v i show ?thesis
        by (simp add: update_task_found [OF t] valid_table_replace map_task_id_replace)
    next
      case False
      with v show ?thesis
        by (simp add: update_task_found [OF t])
    qed
  qed
qed

lemma create_task_table:
  "snd (create_task b db) = db \<and> (\<exists>e. fst (create_task b db) = Inl e)
   \<or> (\<exists>r. snd (create_task b db) = db @ [r] \<and> fst (create_task b db) = Inr r
         \<and> task_id r = Some (next_rowid db) \<and> not_null r)"
proof (cases "validate_TaskCreate b")
  case (Inl e)
  then show ?thesis
    by (simp add: create_task_invalid)
next
  case (Inr c)
  then show ?thesis
    by (simp add: create_task_valid Task_model_validate_def not_null_def)
qed

text \<open>
  Claim C8. In a table whose ids are distinct and not null, every endpoint leaves such
  a table. \<open>create_task\<close> leaves the rows there are and appends at most one, with
  an id that no row has; \<open>update_task\<close> leaves the id of every row, position by
  position (the body has no id); \<open>delete_task\<close> leaves the rows it keeps as they
  are (all rows but those of the id, and all rows when the id cannot be bound);
  \<open>read_task\<close> and \<open>read_tasks\<close> leave the table. The empty table is such a
  table.
\<close>

theorem ids_invariant:
  assumes "valid_table db"
  shows "distinct (map task_id db) \<and> None \<notin> set (map task_id db)
     \<and> valid_table (snd (create_task b db))
     \<and> (snd (create_task b db) = db
         \<or> (\<exists>r. snd (create_task b db) = db @ [r] \<and> fst (create_task b db) = Inr r
              \<and> task_id r = Some (next_rowid db)
              \<and> Some (next_rowid db) \<notin> set (map task_id db)))
     \<and> valid_table (snd (update_task tid p db))
     \<and> map task_id (snd (update_task tid p db)) = map task_id db
     \<and> valid_table (snd (delete_task tid db))
     \<and> (int64 tid \<longrightarrow> snd (delete_task tid db) = filter (\<lambda>r. task_id r \<noteq> Some tid) db)
     \<and> (\<not> int64 tid \<longrightarrow> snd (delete_task tid db) = db)
     \<and> snd (read_task tid db) = db
     \<and> snd (read_tasks offset limit db) = db
     \<and> valid_table []"
proof -
  have ids: "distinct (map task_id db) \<and> None \<notin> set (map task_id db)"
    using assms by (rule valid_table_ids)
  have create_valid: "valid_table (snd (create_task b db))"
    using create_task_table [of b db] assms by (auto simp: valid_table_append)
  have create_ids: "snd (create_task b db) = db
         \<or> (\<exists>r. snd (create_task b db) = db @ [r] \<and> fst (create_task b db) = Inr r
              \<and> task_id r = Some (next_rowid db)
              \<and> Some (next_rowid db) \<notin> set (map task_id db))"
    using create_task_table [of b db] next_rowid_fresh [of db] by blast
  note update = update_task_table [OF assms, of tid p]
  have delete_valid: "valid_table (snd (delete_task tid db))"
    using assms delete_task_table [of tid db]
    by (cases "int64 tid") (simp_all add: valid_table_filter)
  have read: "snd (read_task tid db) = db"
    by (simp add: read_task_def split: sum.splits option.splits)
  have list: "snd (read_tasks offset limit db) = db"
    by (simp add: read_tasks_def Let_def)
  have empty: "valid_table []"
    by (simp add: valid_table_def)
  from ids create_valid create_ids update delete_valid delete_task_table [of tid db] read list
    empty
  show ?thesis
    by blast
qed

theorem ids_invariant_witness:
  "valid_table two_tasks
   \<and> map task_id two_tasks = [Some 1, Some 2]
   \<and> valid_table (snd (create_task buy_milk two_tasks))
   \<and> map task_id (snd (create_task buy_milk two_tasks)) = [Some 1, Some 2, Some 3]
   \<and> valid_table (snd (update_task 1 completed_only two_tasks))
   \<and> map task_id (snd (update_task 1 completed_only two_tasks)) = [Some 1, Some 2]
   \<and> valid_table (snd (delete_task 1 two_tasks))
   \<and> map task_id (snd (delete_task 1 two_tasks)) = [Some 2]"
proof -
  note inv = ids_invariant [OF valid_two_tasks, of buy_milk 1 completed_only]
  have ids: "map task_id two_tasks = [Some 1, Some 2]"
    by (simp add: two_tasks_def milk_def report_def)
  have v: "validate_TaskCreate buy_milk =
      Inr \<lparr>create_title = lit ''Buy milk'', create_description = None,
           create_is_completed = False\<rparr>"
    by (simp add: validate_TaskCreate_def buy_milk_def)
  have n: "next_rowid two_tasks = 3"
    by (simp add: next_rowid_def List.map_filter_def two_tasks_def milk_def report_def)
  have c: "map task_id (snd (create_task buy_milk two_tasks)) = [Some 1, Some 2, Some 3]"
    by (simp add: create_task_valid [OF v] ids n)
  from inv have u: "map task_id (snd (update_task 1 completed_only two_tasks))
      = [Some 1, Some 2]"
    by (simp add: ids)
  have "int64 1"
    by (simp add: int64_def)
  with inv have "snd (delete_task 1 two_tasks) = filter (\<lambda>r. task_id r \<noteq> Some 1) two_tasks"
    by blast
  then have d: "map task_id (snd (delete_task 1 two_tasks)) = [Some 2]"
    by (simp add: two_tasks_def milk_def report_def)
  from inv valid_two_tasks ids c u d show ?thesis
    by blast
qed


section \<open>A null in the patch\<close>

text \<open>
  A body \<open>{"title": null}\<close> for a task that exists: the attribute is set to
  \<open>None\<close>, the commit fails on the \<open>NOT NULL\<close> column, and the stored title is
  what it was, not null.
\<close>

theorem update_task_null_title_counterexample:
  "fst (update_task 1 null_title two_tasks) = Inl IntegrityError
   \<and> session_get (snd (update_task 1 null_title two_tasks)) 1 = Inr (Some milk)
   \<and> title milk = Some (lit ''Buy milk'')"
proof -
  have "\<not> not_null (sqlmodel_update milk null_title)"
    by (simp add: not_null_def sqlmodel_update_def null_title_def)
  then have "update_task 1 null_title two_tasks = (Inl IntegrityError, two_tasks)"
    by (simp add: update_task_found [OF get_milk])
  then show ?thesis
    by (simp add: get_milk) (simp add: milk_def)
qed

text \<open>
  Claim C9, for the field that can hold a null. For a task that exists, a body that
  has \<open>description\<close> present with the value null, and no null for \<open>title\<close> or
  \<open>is_completed\<close>, makes the stored description null, in the row stored and in the
  task returned; \<open>title\<close> and \<open>is_completed\<close> are kept when they are absent from
  the body.
\<close>

theorem update_task_null_description:
  assumes "valid_table db" and "session_get db tid = Inr (Some old)"
    and "body_description p = Present None"
    and "body_title p \<noteq> Present None" and "body_is_completed p \<noteq> Present None"
  shows "\<exists>new. fst (update_task tid p db) = Inr new
           \<and> session_get (snd (update_task tid p db)) tid = Inr (Some new)
           \<and> description new = None
           \<and> (body_title p = Absent \<longrightarrow> title new = title old)
           \<and> (body_is_completed p = Absent \<longrightarrow> is_completed new = is_completed old)"
proof -
  let ?new = "sqlmodel_update old p"
  have i: "task_id old = Some tid" and mem: "old \<in> set db"
    using session_get_SomeD [OF assms(2)] by simp_all
  from mem assms(1) have "not_null old"
    by (simp add: valid_table_def list_all_iff)
  with assms(4,5) have nn: "not_null ?new"
    by (auto simp: not_null_def sqlmodel_update_def split: field.splits)
  then have u: "update_task tid p db =
      (Inr ?new, map (\<lambda>r. if task_id r = Some tid then ?new else r) db)"
    by (simp add: update_task_found [OF assms(2)])
  have g: "session_get (map (\<lambda>r. if task_id r = Some tid then ?new else r) db) tid
      = Inr (Some ?new)"
    using i by (intro session_get_replaced [OF assms(2)]) simp
  have d: "description ?new = None"
    using assms(3) by (simp add: sqlmodel_update_def)
  have t: "body_title p = Absent \<longrightarrow> title ?new = title old"
    by (simp add: sqlmodel_update_def)
  have c: "body_is_completed p = Absent \<longrightarrow> is_completed ?new = is_completed old"
    by (simp add: sqlmodel_update_def)
  from u g d t c show ?thesis
    by simp
qed

theorem update_task_null_description_witness:
  "valid_table two_tasks \<and> session_get two_tasks 2 = Inr (Some report)
   \<and> description report = Some (lit ''due Friday'')
   \<and> body_description null_description = Present None
   \<and> (\<exists>new. fst (update_task 2 null_description two_tasks) = Inr new
          \<and> session_get (snd (update_task 2 null_description two_tasks)) 2 = Inr (Some new)
          \<and> description new = None
          \<and> title new = title report
          \<and> is_completed new = is_completed report)"
proof -
  have a: "body_description null_description = Present None"
    and b: "body_title null_description \<noteq> Present None"
    and c: "body_is_completed null_description \<noteq> Present None"
    and e: "body_title null_description = Absent"
    and f: "body_is_completed null_description = Absent"
    by (simp_all add: null_description_def)
  have d: "description report = Some (lit ''due Friday'')"
    by (simp add: report_def)
  from update_task_null_description [OF valid_two_tasks get_report a b c] e f
  have "\<exists>new. fst (update_task 2 null_description two_tasks) = Inr new
          \<and> session_get (snd (update_task 2 null_description two_tasks)) 2 = Inr (Some new)
          \<and> description new = None
          \<and> title new = title report
          \<and> is_completed new = is_completed report"
    by blast
  with valid_two_tasks get_report a d show ?thesis
    by blast
qed


section \<open>The labels of the classifier\<close>

lemma startswith_iff: "startswith s kw \<longleftrightarrow> (\<exists>ss. s = kw @ ss)"
  by (induction s kw rule: startswith.induct) auto

text \<open>
  \<open>kw in s\<close> holds exactly when \<open>kw\<close> is a contiguous part of \<open>s\<close>.
\<close>

lemma str_in_iff: "str_in kw s \<longleftrightarrow> (\<exists>ps ss. s = ps @ kw @ ss)"
proof (induction s)
  case Nil
  then show ?case by auto
next
  case (Cons c cs)
  have "(\<exists>ps ss. c # cs = ps @ kw @ ss) \<longleftrightarrow>
      (\<exists>ss. c # cs = kw @ ss) \<or> (\<exists>ps ss. cs = ps @ kw @ ss)"
  proof
    assume "\<exists>ps ss. c # cs = ps @ kw @ ss"
    then obtain ps ss where e: "c # cs = ps @ kw @ ss"
      by blast
    show "(\<exists>ss. c # cs = kw @ ss) \<or> (\<exists>ps ss. cs = ps @ kw @ ss)"
    proof (cases ps)
      case Nil
      with e show ?thesis by auto
    next
      case (Cons p ps')
      with e have "cs = ps' @ kw @ ss" by simp
      then show ?thesis by blast
    qed
  next
    assume "(\<exists>ss. c # cs = kw @ ss) \<or> (\<exists>ps ss. cs = ps @ kw @ ss)"
    then show "\<exists>ps ss. c # cs = ps @ kw @ ss"
    proof
      assume "\<exists>ss. c # cs = kw @ ss"
      then obtain ss where "c # cs = [] @ kw @ ss" by auto
      then show ?thesis by blast
    next
      assume "\<exists>ps ss. cs = ps @ kw @ ss"
      then obtain ps ss where "c # cs = (c # ps) @ kw @ ss" by auto
      then show ?thesis by blast
    qed
  qed
  with Cons show ?case
    by (simp add: startswith_iff)
qed

lemma lower_without_dotted_I:
  assumes "0x130 \<notin> set s"
  shows "lower s =
     map (\<lambda>c. if 65 \<le> c \<and> c \<le> 90 then c + 32 else if c = 0x212A then 0x6B else c) s"
  using assms by (induction s) (auto simp: lower_def lower_cp_def)

text \<open>
  The classifier is total and decides in priority order on the lower-cased text: one
  of "urgent", "fail", "error" gives the first label; otherwise one of "learn", "buy"
  gives the second; otherwise, the empty text included, the third.
\<close>

lemma simple_ai_model_priority:
  "simple_ai_model text =
     (if (\<exists>ps ss. lower text = ps @ lit ''urgent'' @ ss)
         \<or> (\<exists>ps ss. lower text = ps @ lit ''fail'' @ ss)
         \<or> (\<exists>ps ss. lower text = ps @ lit ''error'' @ ss)
      then lit ''Critical '' @ [0xF0, 0x178, 0x201D, 0xB4]
      else if (\<exists>ps ss. lower text = ps @ lit ''learn'' @ ss)
         \<or> (\<exists>ps ss. lower text = ps @ lit ''buy'' @ ss)
      then lit ''Growth '' @ [0xF0, 0x178, 0x178, 0xA2]
      else lit ''Neutral '' @ [0xE2, 0x161, 0xAA])"
  by (simp only: simple_ai_model_def str_in_iff)

lemma analyze_task_sentiment_body:
  "analyze_task_sentiment d =
     [(''description'', d), (''predicted_sentiment'', simple_ai_model d)]"
  by (simp add: analyze_task_sentiment_def)

text \<open>
  Claim C2, at the three examples of the specification. The priority order is as the
  claim says, but the labels are not the strings it names: after the word and the
  space, the literals of the source hold the code points U+00F0 U+0178 U+201D U+00B4,
  U+00F0 U+0178 U+0178 U+00A2 and U+00E2 U+0161 U+00AA, which is what the UTF-8 bytes
  of U+1F534, U+1F7E2 and U+26AA become when they are read as Windows-1252. The
  classifier returns these, not the one code point of the claim.
\<close>

theorem simple_ai_model_labels:
  "simple_ai_model (lit ''This is urgent, system failure'')
     = lit ''Critical '' @ [0xF0, 0x178, 0x201D, 0xB4]
   \<and> simple_ai_model (lit ''This is urgent, system failure'') \<noteq> lit ''Critical '' @ [0x1F534]
   \<and> simple_ai_model (lit ''I want to learn Go'') = lit ''Growth '' @ [0xF0, 0x178, 0x178, 0xA2]
   \<and> simple_ai_model (lit ''I want to learn Go'') \<noteq> lit ''Growth '' @ [0x1F7E2]
   \<and> simple_ai_model [] = lit ''Neutral '' @ [0xE2, 0x161, 0xAA]
   \<and> simple_ai_model [] \<noteq> lit ''Neutral '' @ [0x26AA]"
proof -
  have c: "simple_ai_model (lit ''This is urgent, system failure'')
     = lit ''Critical '' @ [0xF0, 0x178, 0x201D, 0xB4]"
    by (simp add: simple_ai_model_def lit_def lower_def lower_cp_def)
  have g: "simple_ai_model (lit ''I want to learn Go'')
     = lit ''Growth '' @ [0xF0, 0x178, 0x178, 0xA2]"
    by (simp add: simple_ai_model_def lit_def lower_def lower_cp_def)
  have n: "simple_ai_model [] = lit ''Neutral '' @ [0xE2, 0x161, 0xAA]"
    by (simp add: simple_ai_model_def lit_def lower_def lower_cp_def)
  have c': "lit ''Critical '' @ [0xF0, 0x178, 0x201D, 0xB4] \<noteq> lit ''Critical '' @ [0x1F534]"
    by (simp add: lit_def)
  have g': "lit ''Growth '' @ [0xF0, 0x178, 0x178, 0xA2] \<noteq> lit ''Growth '' @ [0x1F7E2]"
    by (simp add: lit_def)
  have n': "lit ''Neutral '' @ [0xE2, 0x161, 0xAA] \<noteq> lit ''Neutral '' @ [0x26AA]"
    by (simp add: lit_def)
  from c c' g g' n n' show ?thesis
    by simp
qed

end
